theory Spec2Isabelle
  imports Complex_Main
begin

section \<open>Values shared by the modules\<close>

text \<open>
  Python values of type \<open>Any\<close> that the SDK stores and moves around (the \<open>extra\<close>
  map, breadcrumb and user \<open>data\<close>, journey metadata, JSON read from the queue file or
  from an HTTP response) are JSON data. A \<open>dict\<close> is an association list in insertion
  order; its keys are distinct in every dict the code builds. Floats do not occur in any
  decision the code takes on such values and are left out of the datatype.
\<close>

datatype json =
    JNull
  | JBool bool
  | JInt int
  | JStr string
  | JArr "json list"
  | JObj "(string \<times> json) list"

datatype error =
    KeyError | TypeError | ValueError | AttributeError | IndexError | RuntimeError | IllTyped

text \<open>Python truthiness (\<open>if x:\<close>) of a JSON value.\<close>

fun truthy :: "json \<Rightarrow> bool" where
  "truthy JNull = False"
| "truthy (JBool b) = b"
| "truthy (JInt i) = (i \<noteq> 0)"
| "truthy (JStr s) = (s \<noteq> [])"
| "truthy (JArr xs) = (xs \<noteq> [])"
| "truthy (JObj kvs) = (kvs \<noteq> [])"

text \<open>\<open>d.get(k)\<close>, \<open>d.get(k, default)\<close> and \<open>d[k]\<close> on a value expected to be a dict.\<close>

fun dict_get_default :: "json \<Rightarrow> string \<Rightarrow> json \<Rightarrow> error + json" where
  "dict_get_default (JObj kvs) k d = Inr (case map_of kvs k of None \<Rightarrow> d | Some v \<Rightarrow> v)"
| "dict_get_default _ k d = Inl AttributeError"

definition dict_get :: "json \<Rightarrow> string \<Rightarrow> error + json" where
  "dict_get j k = dict_get_default j k JNull"

fun dict_index :: "json \<Rightarrow> string \<Rightarrow> error + json" where
  "dict_index (JObj kvs) k = (case map_of kvs k of None \<Rightarrow> Inl KeyError | Some v \<Rightarrow> Inr v)"
| "dict_index _ k = Inl TypeError"

text \<open>Sequencing of computations that may raise.\<close>

definition bindE :: "error + 'a \<Rightarrow> ('a \<Rightarrow> error + 'b) \<Rightarrow> error + 'b" where
  "bindE m f = (case m of Inl e \<Rightarrow> Inl e | Inr x \<Rightarrow> f x)"

fun mapE :: "('a \<Rightarrow> error + 'b) \<Rightarrow> 'a list \<Rightarrow> error + 'b list" where
  "mapE f [] = Inr []"
| "mapE f (x # xs) = bindE (f x) (\<lambda>y. bindE (mapE f xs) (\<lambda>ys. Inr (y # ys)))"

section \<open>types.py\<close>

datatype SeverityLevel = DEBUG | INFO | WARNING | ERROR | FATAL

fun SeverityLevel_value :: "SeverityLevel \<Rightarrow> string" where
  "SeverityLevel_value DEBUG = ''debug''"
| "SeverityLevel_value INFO = ''info''"
| "SeverityLevel_value WARNING = ''warning''"
| "SeverityLevel_value ERROR = ''error''"
| "SeverityLevel_value FATAL = ''fatal''"

text \<open>\<open>SeverityLevel(x)\<close>: the member whose value is \<open>x\<close>, else ValueError.\<close>

definition SeverityLevel_of :: "json \<Rightarrow> error + SeverityLevel" where
  "SeverityLevel_of j =
     (if j = JStr ''debug'' then Inr DEBUG
      else if j = JStr ''info'' then Inr INFO
      else if j = JStr ''warning'' then Inr WARNING
      else if j = JStr ''error'' then Inr ERROR
      else if j = JStr ''fatal'' then Inr FATAL
      else Inl ValueError)"

datatype BreadcrumbCategory = UI | HTTP | NAVIGATION | CONSOLE | AUTH | BUSINESS | NOTIFICATION | CUSTOM

fun BreadcrumbCategory_value :: "BreadcrumbCategory \<Rightarrow> string" where
  "BreadcrumbCategory_value UI = ''ui''"
| "BreadcrumbCategory_value HTTP = ''http''"
| "BreadcrumbCategory_value NAVIGATION = ''navigation''"
| "BreadcrumbCategory_value CONSOLE = ''console''"
| "BreadcrumbCategory_value AUTH = ''auth''"
| "BreadcrumbCategory_value BUSINESS = ''business''"
| "BreadcrumbCategory_value NOTIFICATION = ''notification''"
| "BreadcrumbCategory_value CUSTOM = ''custom''"

definition BreadcrumbCategory_of :: "json \<Rightarrow> error + BreadcrumbCategory" where
  "BreadcrumbCategory_of j =
     (if j = JStr ''ui'' then Inr UI
      else if j = JStr ''http'' then Inr HTTP
      else if j = JStr ''navigation'' then Inr NAVIGATION
      else if j = JStr ''console'' then Inr CONSOLE
      else if j = JStr ''auth'' then Inr AUTH
      else if j = JStr ''business'' then Inr BUSINESS
      else if j = JStr ''notification'' then Inr NOTIFICATION
      else if j = JStr ''custom'' then Inr CUSTOM
      else Inl ValueError)"

text \<open>
  A \<open>datetime\<close> is represented by the ISO-8601 text that \<open>isoformat()\<close> prints for it,
  and \<open>datetime.fromisoformat\<close> reads that text back: the standard library documents
  \<open>fromisoformat\<close> as the inverse of \<open>isoformat\<close>. Which strings are valid ISO-8601 is
  not modelled; a value that is not a string raises TypeError.
\<close>

datatype datetime = Datetime string

fun isoformat :: "datetime \<Rightarrow> string" where
  "isoformat (Datetime s) = s"

fun fromisoformat :: "json \<Rightarrow> error + datetime" where
  "fromisoformat (JStr s) = Inr (Datetime s)"
| "fromisoformat _ = Inl TypeError"

text \<open>
  The dataclasses. Field names carry a prefix for their class, since several classes
  share names (\<open>message\<close>, \<open>timestamp\<close>, \<open>name\<close>, \<open>data\<close>).
\<close>

record Breadcrumb =
  bc_timestamp :: datetime
  bc_category :: BreadcrumbCategory
  bc_message :: string
  bc_level :: SeverityLevel
  bc_data :: "(string \<times> json) list option"

record User =
  usr_id :: string
  usr_email :: "string option"
  usr_name :: "string option"
  usr_data :: "(string \<times> json) list option"

record StackFrame =
  sf_function :: "string option"
  sf_filename :: "string option"
  sf_lineno :: "int option"
  sf_colno :: "int option"
  sf_context :: "string list option"

record ExceptionInfo =
  exc_type :: string
  exc_message :: string
  exc_stacktrace :: "StackFrame list option"

record PlatformInfo =
  plat_name :: string
  plat_version :: "string option"
  plat_os :: "string option"

record JourneyContext =
  jc_journey_id :: string
  jc_name :: string
  jc_started_at :: datetime
  jc_current_step :: "string option"
  jc_metadata :: "(string \<times> json) list"

record TelemetryEvent =
  event_id :: string
  timestamp :: datetime
  level :: SeverityLevel
  platform :: PlatformInfo
  tags :: "(string \<times> string) list"
  extra :: "(string \<times> json) list"
  breadcrumbs :: "Breadcrumb list"
  message :: "string option"
  exception :: "ExceptionInfo option"
  user :: "User option"
  journey :: "JourneyContext option"
  environment :: "string option"
  app_version :: "string option"

text \<open>
  \<open>SendResult.event_id\<close> is annotated \<open>Optional[str]\<close>, but \<open>Transport.send\<close> stores
  in it whatever JSON value the server returned under \<open>eventId\<close>, so the field holds a
  JSON value (\<open>JNull\<close> for \<open>None\<close>).
\<close>

record SendResult =
  success :: bool
  sr_event_id :: json
  sr_error :: "string option"
  queued :: bool

section \<open>breadcrumbs.py\<close>

text \<open>The slice \<open>xs[s:]\<close>: a negative start counts from the end, and is clamped.\<close>

definition slice_from :: "int \<Rightarrow> 'a list \<Rightarrow> 'a list" where
  "slice_from s xs =
     (let n = int (length xs);
          i = (if s < 0 then max (n + s) 0 else min s n)
      in drop (nat i) xs)"

record BreadcrumbManager =
  max_breadcrumbs :: int
  bm_breadcrumbs :: "Breadcrumb list"

definition BreadcrumbManager_init :: "int \<Rightarrow> BreadcrumbManager" where
  "BreadcrumbManager_init m = \<lparr> max_breadcrumbs = m, bm_breadcrumbs = [] \<rparr>"

text \<open>\<open>add_breadcrumb\<close>: append, then trim to the most recent \<open>max_breadcrumbs\<close>.\<close>

definition add_breadcrumb :: "BreadcrumbManager \<Rightarrow> Breadcrumb \<Rightarrow> BreadcrumbManager" where
  "add_breadcrumb bm b =
     (let bs = bm_breadcrumbs bm @ [b]
      in if int (length bs) > max_breadcrumbs bm
         then bm\<lparr>bm_breadcrumbs := slice_from (- max_breadcrumbs bm) bs\<rparr>
         else bm\<lparr>bm_breadcrumbs := bs\<rparr>)"

text \<open>
  One call of \<open>add(message, category, level, data)\<close>, together with the clock reading
  \<open>datetime.now()\<close> it takes.
\<close>

record add_call =
  ac_now :: datetime
  ac_message :: string
  ac_category :: BreadcrumbCategory
  ac_level :: SeverityLevel
  ac_data :: "(string \<times> json) list option"

definition breadcrumb_of :: "add_call \<Rightarrow> Breadcrumb" where
  "breadcrumb_of a =
     \<lparr> bc_timestamp = ac_now a, bc_category = ac_category a, bc_message = ac_message a,
       bc_level = ac_level a, bc_data = ac_data a \<rparr>"

definition add :: "BreadcrumbManager \<Rightarrow> add_call \<Rightarrow> BreadcrumbManager" where
  "add bm a =
     (let breadcrumb = breadcrumb_of a;
          bs = bm_breadcrumbs bm @ [breadcrumb]
      in if int (length bs) > max_breadcrumbs bm
         then bm\<lparr>bm_breadcrumbs := slice_from (- max_breadcrumbs bm) bs\<rparr>
         else bm\<lparr>bm_breadcrumbs := bs\<rparr>)"

definition bm_get_all :: "BreadcrumbManager \<Rightarrow> Breadcrumb list" where
  "bm_get_all bm = bm_breadcrumbs bm"

definition bm_clear :: "BreadcrumbManager \<Rightarrow> BreadcrumbManager" where
  "bm_clear bm = bm\<lparr>bm_breadcrumbs := []\<rparr>"

definition bm_count :: "BreadcrumbManager \<Rightarrow> nat" where
  "bm_count bm = length (bm_breadcrumbs bm)"

text \<open>A sequence of \<open>add\<close> calls on one manager.\<close>

definition add_calls :: "BreadcrumbManager \<Rightarrow> add_call list \<Rightarrow> BreadcrumbManager" where
  "add_calls bm cs = foldl add bm cs"

section \<open>queue.py\<close>

text \<open>
  Typed dataclass fields as JSON values and back. Python does not check a dataclass
  field against its annotation; a JSON value that the annotated type cannot hold is
  outside this typed model and reported as \<open>IllTyped\<close>.
\<close>

definition opt_str :: "string option \<Rightarrow> json" where
  "opt_str x = (case x of None \<Rightarrow> JNull | Some s \<Rightarrow> JStr s)"

definition opt_int :: "int option \<Rightarrow> json" where
  "opt_int x = (case x of None \<Rightarrow> JNull | Some i \<Rightarrow> JInt i)"

definition opt_dict :: "(string \<times> json) list option \<Rightarrow> json" where
  "opt_dict x = (case x of None \<Rightarrow> JNull | Some kvs \<Rightarrow> JObj kvs)"

definition tags_dict :: "(string \<times> string) list \<Rightarrow> json" where
  "tags_dict ts = JObj (map (\<lambda>(k, v). (k, JStr v)) ts)"

fun as_str :: "json \<Rightarrow> error + string" where
  "as_str (JStr s) = Inr s"
| "as_str _ = Inl IllTyped"

fun as_opt_str :: "json \<Rightarrow> error + string option" where
  "as_opt_str JNull = Inr None"
| "as_opt_str (JStr s) = Inr (Some s)"
| "as_opt_str _ = Inl IllTyped"

fun as_opt_int :: "json \<Rightarrow> error + int option" where
  "as_opt_int JNull = Inr None"
| "as_opt_int (JInt i) = Inr (Some i)"
| "as_opt_int _ = Inl IllTyped"

fun as_dict :: "json \<Rightarrow> error + (string \<times> json) list" where
  "as_dict (JObj kvs) = Inr kvs"
| "as_dict _ = Inl IllTyped"

fun as_opt_dict :: "json \<Rightarrow> error + (string \<times> json) list option" where
  "as_opt_dict JNull = Inr None"
| "as_opt_dict (JObj kvs) = Inr (Some kvs)"
| "as_opt_dict _ = Inl IllTyped"

fun as_tags :: "json \<Rightarrow> error + (string \<times> string) list" where
  "as_tags (JObj kvs) = mapE (\<lambda>(k, v). bindE (as_str v) (\<lambda>s. Inr (k, s))) kvs"
| "as_tags _ = Inl IllTyped"

text \<open>\<open>for x in v\<close>: a list yields its elements, a dict its keys, a string its characters.\<close>

fun iterate :: "json \<Rightarrow> error + json list" where
  "iterate (JArr xs) = Inr xs"
| "iterate (JObj kvs) = Inr (map (\<lambda>kv. JStr (fst kv)) kvs)"
| "iterate (JStr s) = Inr (map (\<lambda>c. JStr [c]) s)"
| "iterate _ = Inl TypeError"

subsection \<open>\<open>OfflineQueue._serialize_event\<close>\<close>

definition q_serialize_frame :: "StackFrame \<Rightarrow> json" where
  "q_serialize_frame f =
     JObj [(''function'', opt_str (sf_function f)),
           (''filename'', opt_str (sf_filename f)),
           (''lineno'', opt_int (sf_lineno f))]"

definition q_serialize_exception :: "ExceptionInfo \<Rightarrow> json" where
  "q_serialize_exception x =
     JObj [(''type'', JStr (exc_type x)),
           (''message'', JStr (exc_message x)),
           (''stacktrace'',
              (case exc_stacktrace x of
                 None \<Rightarrow> JNull
               | Some fs \<Rightarrow> if fs = [] then JNull else JArr (map q_serialize_frame fs)))]"

definition q_serialize_user :: "User \<Rightarrow> json" where
  "q_serialize_user u =
     JObj [(''id'', JStr (usr_id u)),
           (''email'', opt_str (usr_email u)),
           (''data'', opt_dict (usr_data u))]"

definition q_serialize_breadcrumb :: "Breadcrumb \<Rightarrow> json" where
  "q_serialize_breadcrumb b =
     JObj [(''timestamp'', JStr (isoformat (bc_timestamp b))),
           (''category'', JStr (BreadcrumbCategory_value (bc_category b))),
           (''message'', JStr (bc_message b)),
           (''level'', JStr (SeverityLevel_value (bc_level b))),
           (''data'', opt_dict (bc_data b))]"

definition q_serialize_journey :: "JourneyContext \<Rightarrow> json" where
  "q_serialize_journey j =
     JObj [(''journey_id'', JStr (jc_journey_id j)),
           (''name'', JStr (jc_name j)),
           (''current_step'', opt_str (jc_current_step j)),
           (''started_at'', JStr (isoformat (jc_started_at j))),
           (''metadata'', JObj (jc_metadata j))]"

definition q_serialize_platform :: "PlatformInfo \<Rightarrow> json" where
  "q_serialize_platform p =
     JObj [(''name'', JStr (plat_name p)),
           (''version'', opt_str (plat_version p)),
           (''os'', opt_str (plat_os p))]"

definition q_serialize_event :: "TelemetryEvent \<Rightarrow> json" where
  "q_serialize_event event =
     JObj [(''event_id'', JStr (event_id event)),
           (''timestamp'', JStr (isoformat (timestamp event))),
           (''level'', JStr (SeverityLevel_value (level event))),
           (''message'', opt_str (message event)),
           (''exception'',
              (case exception event of None \<Rightarrow> JNull | Some x \<Rightarrow> q_serialize_exception x)),
           (''user'', (case user event of None \<Rightarrow> JNull | Some u \<Rightarrow> q_serialize_user u)),
           (''tags'', tags_dict (tags event)),
           (''extra'', JObj (extra event)),
           (''breadcrumbs'', JArr (map q_serialize_breadcrumb (breadcrumbs event))),
           (''journey'',
              (case journey event of None \<Rightarrow> JNull | Some j \<Rightarrow> q_serialize_journey j)),
           (''environment'', opt_str (environment event)),
           (''app_version'', opt_str (app_version event)),
           (''platform'', q_serialize_platform (platform event))]"

subsection \<open>\<open>OfflineQueue._deserialize_event\<close>\<close>

definition deserialize_frame :: "json \<Rightarrow> error + StackFrame" where
  "deserialize_frame f =
     bindE (bindE (dict_get f ''function'') as_opt_str) (\<lambda>fn.
     bindE (bindE (dict_get f ''filename'') as_opt_str) (\<lambda>file.
     bindE (bindE (dict_get f ''lineno'') as_opt_int) (\<lambda>line.
     Inr \<lparr> sf_function = fn, sf_filename = file, sf_lineno = line,
           sf_colno = None, sf_context = None \<rparr>)))"

definition deserialize_exception :: "json \<Rightarrow> error + ExceptionInfo option" where
  "deserialize_exception data =
     bindE (dict_get data ''exception'') (\<lambda>x.
     if truthy x then
       bindE (dict_index data ''exception'') (\<lambda>exc_data.
       bindE (dict_get exc_data ''stacktrace'') (\<lambda>st.
       bindE (if truthy st
              then bindE (dict_index exc_data ''stacktrace'') (\<lambda>l.
                   bindE (iterate l) (\<lambda>fs.
                   bindE (mapE deserialize_frame fs) (\<lambda>frames. Inr (Some frames))))
              else Inr None) (\<lambda>stacktrace.
       bindE (bindE (dict_index exc_data ''type'') as_str) (\<lambda>t.
       bindE (bindE (dict_index exc_data ''message'') as_str) (\<lambda>m.
       Inr (Some \<lparr> exc_type = t, exc_message = m, exc_stacktrace = stacktrace \<rparr>))))))
     else Inr None)"

definition deserialize_user :: "json \<Rightarrow> error + User option" where
  "deserialize_user data =
     bindE (dict_get data ''user'') (\<lambda>x.
     if truthy x then
       bindE (dict_index data ''user'') (\<lambda>user_data.
       bindE (bindE (dict_index user_data ''id'') as_str) (\<lambda>i.
       bindE (bindE (dict_get user_data ''email'') as_opt_str) (\<lambda>e.
       bindE (bindE (dict_get user_data ''data'') as_opt_dict) (\<lambda>d.
       Inr (Some \<lparr> usr_id = i, usr_email = e, usr_name = None, usr_data = d \<rparr>)))))
     else Inr None)"

definition deserialize_journey :: "json \<Rightarrow> error + JourneyContext option" where
  "deserialize_journey data =
     bindE (dict_get data ''journey'') (\<lambda>x.
     if truthy x then
       bindE (dict_index data ''journey'') (\<lambda>j_data.
       bindE (bindE (dict_index j_data ''journey_id'') as_str) (\<lambda>i.
       bindE (bindE (dict_index j_data ''name'') as_str) (\<lambda>n.
       bindE (bindE (dict_get j_data ''current_step'') as_opt_str) (\<lambda>step.
       bindE (bindE (dict_index j_data ''started_at'') fromisoformat) (\<lambda>started.
       bindE (bindE (dict_get_default j_data ''metadata'' (JObj [])) as_dict) (\<lambda>md.
       Inr (Some \<lparr> jc_journey_id = i, jc_name = n, jc_started_at = started,
                   jc_current_step = step, jc_metadata = md \<rparr>)))))))
     else Inr None)"

definition deserialize_breadcrumb :: "json \<Rightarrow> error + Breadcrumb" where
  "deserialize_breadcrumb b =
     bindE (bindE (dict_index b ''timestamp'') fromisoformat) (\<lambda>t.
     bindE (bindE (dict_index b ''category'') BreadcrumbCategory_of) (\<lambda>c.
     bindE (bindE (dict_index b ''message'') as_str) (\<lambda>m.
     bindE (bindE (dict_index b ''level'') SeverityLevel_of) (\<lambda>l.
     bindE (bindE (dict_get b ''data'') as_opt_dict) (\<lambda>d.
     Inr \<lparr> bc_timestamp = t, bc_category = c, bc_message = m, bc_level = l,
           bc_data = d \<rparr>)))))"

definition deserialize_platform :: "json \<Rightarrow> error + PlatformInfo" where
  "deserialize_platform data =
     bindE (dict_get_default data ''platform'' (JObj [])) (\<lambda>platform_data.
     bindE (bindE (dict_get_default platform_data ''name'' (JStr ''python'')) as_str) (\<lambda>n.
     bindE (bindE (dict_get platform_data ''version'') as_opt_str) (\<lambda>v.
     bindE (bindE (dict_get platform_data ''os'') as_opt_str) (\<lambda>os.
     Inr \<lparr> plat_name = n, plat_version = v, plat_os = os \<rparr>))))"

definition deserialize_event :: "json \<Rightarrow> error + TelemetryEvent" where
  "deserialize_event data =
     bindE (deserialize_exception data) (\<lambda>exc.
     bindE (deserialize_user data) (\<lambda>usr.
     bindE (deserialize_journey data) (\<lambda>jrn.
     bindE (bindE (bindE (dict_get_default data ''breadcrumbs'' (JArr [])) iterate)
              (mapE deserialize_breadcrumb)) (\<lambda>crumbs.
     bindE (deserialize_platform data) (\<lambda>plat.
     bindE (bindE (dict_index data ''event_id'') as_str) (\<lambda>eid.
     bindE (bindE (dict_index data ''timestamp'') fromisoformat) (\<lambda>ts.
     bindE (bindE (dict_index data ''level'') SeverityLevel_of) (\<lambda>lvl.
     bindE (bindE (dict_get data ''message'') as_opt_str) (\<lambda>msg.
     bindE (bindE (dict_get_default data ''tags'' (JObj [])) as_tags) (\<lambda>tgs.
     bindE (bindE (dict_get_default data ''extra'' (JObj [])) as_dict) (\<lambda>ext.
     bindE (bindE (dict_get data ''environment'') as_opt_str) (\<lambda>env.
     bindE (bindE (dict_get data ''app_version'') as_opt_str) (\<lambda>ver.
     Inr \<lparr> event_id = eid, timestamp = ts, level = lvl, platform = plat, tags = tgs,
           extra = ext, breadcrumbs = crumbs, message = msg, exception = exc, user = usr,
           journey = jrn, environment = env, app_version = ver \<rparr>)))))))))))))"

subsection \<open>The queue\<close>

text \<open>
  \<open>q_file\<close> is the content of \<open>queue.json\<close> (\<open>None\<close>: the file is absent or cannot be
  read as JSON); \<open>q_storage_ok\<close> says whether creating the directory and writing the file
  succeeds. The messages printed in debug mode are not part of the state.
\<close>

record OfflineQueue =
  q_max_size :: int
  q_debug :: bool
  q_queue :: "TelemetryEvent list"
  q_file :: "json option"
  q_storage_ok :: bool

definition q_load :: "OfflineQueue \<Rightarrow> OfflineQueue" where
  "q_load q =
     (case q_file q of
        None \<Rightarrow> q
      | Some data \<Rightarrow>
          (case bindE (iterate data) (mapE deserialize_event) of
             Inl e \<Rightarrow> q
           | Inr es \<Rightarrow> q\<lparr>q_queue := es\<rparr>))"

definition q_save :: "OfflineQueue \<Rightarrow> OfflineQueue" where
  "q_save q =
     (if q_storage_ok q
      then q\<lparr>q_file := Some (JArr (map q_serialize_event (q_queue q)))\<rparr>
      else q)"

definition OfflineQueue_init :: "int \<Rightarrow> bool \<Rightarrow> json option \<Rightarrow> bool \<Rightarrow> OfflineQueue" where
  "OfflineQueue_init m dbg file ok =
     q_load \<lparr> q_max_size = m, q_debug = dbg, q_queue = [], q_file = file, q_storage_ok = ok \<rparr>"

text \<open>\<open>xs.pop(0)\<close>: the list without its first element; IndexError on the empty list.\<close>

fun pop0 :: "'a list \<Rightarrow> error + 'a list" where
  "pop0 [] = Inl IndexError"
| "pop0 (x # xs) = Inr xs"

definition enqueue :: "OfflineQueue \<Rightarrow> TelemetryEvent \<Rightarrow> error + OfflineQueue" where
  "enqueue q event =
     bindE (if int (length (q_queue q)) \<ge> q_max_size q then pop0 (q_queue q)
            else Inr (q_queue q)) (\<lambda>l.
     Inr (q_save (q\<lparr>q_queue := l @ [event]\<rparr>)))"

definition q_get_all :: "OfflineQueue \<Rightarrow> TelemetryEvent list" where
  "q_get_all q = q_queue q"

definition remove :: "OfflineQueue \<Rightarrow> string \<Rightarrow> OfflineQueue" where
  "remove q eid = q_save (q\<lparr>q_queue := filter (\<lambda>e. event_id e \<noteq> eid) (q_queue q)\<rparr>)"

definition q_clear :: "OfflineQueue \<Rightarrow> OfflineQueue" where
  "q_clear q = q_save (q\<lparr>q_queue := []\<rparr>)"

definition q_size :: "OfflineQueue \<Rightarrow> nat" where
  "q_size q = length (q_queue q)"

definition is_empty :: "OfflineQueue \<Rightarrow> bool" where
  "is_empty q = (length (q_queue q) = 0)"

text \<open>A sequence of \<open>enqueue\<close> calls; the first one that raises ends the sequence.\<close>

fun enqueue_all :: "OfflineQueue \<Rightarrow> TelemetryEvent list \<Rightarrow> error + OfflineQueue" where
  "enqueue_all q [] = Inr q"
| "enqueue_all q (e # es) = bindE (enqueue q e) (\<lambda>q'. enqueue_all q' es)"

section \<open>transport.py\<close>

text \<open>
  The network is the environment of the SDK: \<open>server\<close> answers a request, given the
  requests made before it, and \<open>history\<close> records every request made so far. An answer
  is a response (status code, body text, and the body parsed by \<open>response.json()\<close>, or
  the message of the exception that parsing raises) or the message of the exception
  that \<open>httpx\<close> raises for the request.
\<close>

datatype request =
    POST string "(string \<times> string) list" json
  | GET string "(string \<times> string) list"

datatype http_outcome =
    Response int string "string + json"
  | RequestError string

record network =
  server :: "request list \<Rightarrow> request \<Rightarrow> http_outcome"
  history :: "request list"

definition exchange :: "network \<Rightarrow> request \<Rightarrow> http_outcome \<times> network" where
  "exchange n r = (server n (history n) r, n\<lparr>history := history n @ [r]\<rparr>)"

text \<open>The requests to the events endpoint among a list of requests.\<close>

fun is_post :: "request \<Rightarrow> bool" where
  "is_post (POST url hs body) = True"
| "is_post (GET url hs) = False"

text \<open>\<open>str(i)\<close> for an integer.\<close>

fun str_nat :: "nat \<Rightarrow> string" where
  "str_nat n =
     (if n < 10 then [''0123456789'' ! n]
      else str_nat (n div 10) @ [''0123456789'' ! (n mod 10)])"

declare str_nat.simps [simp del]

definition str_int :: "int \<Rightarrow> string" where
  "str_int i = (if i < 0 then ''-'' @ str_nat (nat (- i)) else str_nat (nat i))"

text \<open>The message of the AttributeError that \<open>result.get\<close> raises on a value that is no dict.\<close>

fun type_name :: "json \<Rightarrow> string" where
  "type_name JNull = ''NoneType''"
| "type_name (JBool b) = ''bool''"
| "type_name (JInt i) = ''int''"
| "type_name (JStr s) = ''str''"
| "type_name (JArr xs) = ''list''"
| "type_name (JObj kvs) = ''dict''"

definition no_attribute_get :: "json \<Rightarrow> string" where
  "no_attribute_get j = [CHR 39] @ type_name j @ [CHR 39] @ '' object has no attribute ''
                        @ [CHR 39] @ ''get'' @ [CHR 39]"

record Transport =
  t_api_base_url :: string
  t_public_key :: string
  t_debug :: bool

subsection \<open>\<open>Transport._serialize_event\<close>\<close>

definition t_serialize_exception :: "ExceptionInfo \<Rightarrow> json" where
  "t_serialize_exception exc =
     JObj [(''type'', JStr (exc_type exc)),
           (''message'', JStr (exc_message exc)),
           (''stacktrace'',
              (case exc_stacktrace exc of
                 None \<Rightarrow> JNull
               | Some fs \<Rightarrow>
                   if fs = [] then JNull
                   else JArr (map (\<lambda>f. JObj [(''function'', opt_str (sf_function f)),
                                              (''filename'', opt_str (sf_filename f)),
                                              (''lineno'', opt_int (sf_lineno f)),
                                              (''colno'', opt_int (sf_colno f))]) fs)))]"

definition t_serialize_user :: "User \<Rightarrow> json" where
  "t_serialize_user u =
     JObj [(''id'', JStr (usr_id u)),
           (''email'', opt_str (usr_email u)),
           (''name'', opt_str (usr_name u)),
           (''data'', opt_dict (usr_data u))]"

definition t_serialize_breadcrumb :: "Breadcrumb \<Rightarrow> json" where
  "t_serialize_breadcrumb b =
     JObj [(''timestamp'', JStr (isoformat (bc_timestamp b))),
           (''category'', JStr (BreadcrumbCategory_value (bc_category b))),
           (''message'', JStr (bc_message b)),
           (''level'', JStr (SeverityLevel_value (bc_level b))),
           (''data'', opt_dict (bc_data b))]"

definition t_serialize_journey :: "JourneyContext \<Rightarrow> json" where
  "t_serialize_journey j =
     JObj [(''journeyId'', JStr (jc_journey_id j)),
           (''name'', JStr (jc_name j)),
           (''currentStep'', opt_str (jc_current_step j)),
           (''startedAt'', JStr (isoformat (jc_started_at j))),
           (''metadata'', JObj (jc_metadata j))]"

definition t_serialize_event :: "TelemetryEvent \<Rightarrow> json" where
  "t_serialize_event event =
     JObj [(''eventId'', JStr (event_id event)),
           (''timestamp'', JStr (isoformat (timestamp event))),
           (''level'', JStr (SeverityLevel_value (level event))),
           (''message'', opt_str (message event)),
           (''exception'',
              (case exception event of None \<Rightarrow> JNull | Some x \<Rightarrow> t_serialize_exception x)),
           (''user'', (case user event of None \<Rightarrow> JNull | Some u \<Rightarrow> t_serialize_user u)),
           (''tags'', tags_dict (tags event)),
           (''extra'', JObj (extra event)),
           (''breadcrumbs'', JArr (map t_serialize_breadcrumb (breadcrumbs event))),
           (''journey'',
              (case journey event of None \<Rightarrow> JNull | Some j \<Rightarrow> t_serialize_journey j)),
           (''environment'', opt_str (environment event)),
           (''appVersion'', opt_str (app_version event)),
           (''platform'',
              JObj [(''name'', JStr (plat_name (platform event))),
                    (''version'', opt_str (plat_version (platform event))),
                    (''os'', opt_str (plat_os (platform event)))])]"

subsection \<open>\<open>Transport.send\<close> and \<open>Transport.is_online\<close>\<close>

definition failure :: "string \<Rightarrow> SendResult" where
  "failure m = \<lparr> success = False, sr_event_id = JNull, sr_error = Some m, queued = False \<rparr>"

definition events_request :: "Transport \<Rightarrow> TelemetryEvent \<Rightarrow> request" where
  "events_request t event =
     POST (t_api_base_url t @ ''/api/v1/events'')
          [(''Content-Type'', ''application/json''), (''X-Public-Key'', t_public_key t)]
          (t_serialize_event event)"

text \<open>
  \<open>send\<close>: every exception raised inside the \<open>try\<close> block (by the request, by
  \<open>response.json()\<close>, by \<open>result.get\<close>) is caught and becomes a failed result.
\<close>

definition send :: "Transport \<Rightarrow> network \<Rightarrow> TelemetryEvent \<Rightarrow> SendResult \<times> network" where
  "send t n event =
     (let (out, n') = exchange n (events_request t event)
      in case out of
           RequestError m \<Rightarrow> (failure m, n')
         | Response status_code text body \<Rightarrow>
             if status_code \<ge> 400
             then (failure (''HTTP '' @ str_int status_code @ '': '' @ text), n')
             else (case body of
                     Inl m \<Rightarrow> (failure m, n')
                   | Inr result \<Rightarrow>
                       (case dict_get_default result ''eventId'' (JStr (event_id event)) of
                          Inl e \<Rightarrow> (failure (no_attribute_get result), n')
                        | Inr eid \<Rightarrow>
                            (\<lparr> success = True, sr_event_id = eid, sr_error = None,
                               queued = False \<rparr>, n'))))"

definition health_request :: "Transport \<Rightarrow> request" where
  "health_request t =
     GET (t_api_base_url t @ ''/api/v1/health'') [(''X-Public-Key'', t_public_key t)]"

definition is_online :: "Transport \<Rightarrow> network \<Rightarrow> bool \<times> network" where
  "is_online t n =
     (let (out, n') = exchange n (health_request t)
      in case out of
           RequestError m \<Rightarrow> (False, n')
         | Response status_code text body \<Rightarrow> (status_code = 200, n'))"

section \<open>journey.py\<close>

text \<open>\<open>d[k] = v\<close> on a dict: an existing key keeps its place, a new key goes to the end.\<close>

fun dict_set :: "('k \<times> 'v) list \<Rightarrow> 'k \<Rightarrow> 'v \<Rightarrow> ('k \<times> 'v) list" where
  "dict_set [] k v = [(k, v)]"
| "dict_set ((k', v') # kvs) k v =
     (if k' = k then (k, v) # kvs else (k', v') # dict_set kvs k v)"

record Step =
  st_name :: string
  st_category :: "string option"
  st_started_at :: datetime
  st_ended_at :: "datetime option"
  st_status :: string
  st_data :: "(string \<times> json) list"

record Journey =
  j_id :: string
  j_name :: string
  j_started_at :: datetime
  j_metadata :: "(string \<times> json) list"
  j_user :: "User option"
  j_current_step :: "Step option"
  j_completed :: bool
  j_failed :: bool

text \<open>\<open>Journey(name)\<close>, with the id and the clock reading it draws.\<close>

definition Journey_init :: "string \<Rightarrow> datetime \<Rightarrow> string \<Rightarrow> Journey" where
  "Journey_init uuid now name =
     \<lparr> j_id = uuid, j_name = name, j_started_at = now, j_metadata = [], j_user = None,
       j_current_step = None, j_completed = False, j_failed = False \<rparr>"

definition Journey_set_user ::
  "Journey \<Rightarrow> string \<Rightarrow> string option \<Rightarrow> (string \<times> json) list option \<Rightarrow> Journey" where
  "Journey_set_user j uid email data =
     j\<lparr>j_user := Some \<lparr> usr_id = uid, usr_email = email, usr_name = None,
                         usr_data = data \<rparr>\<rparr>"

definition Journey_set_metadata :: "Journey \<Rightarrow> string \<Rightarrow> json \<Rightarrow> Journey" where
  "Journey_set_metadata j k v = j\<lparr>j_metadata := dict_set (j_metadata j) k v\<rparr>"

text \<open>Ending the current step, if it is still in progress, with a given status.\<close>

definition end_current_step :: "string \<Rightarrow> datetime \<Rightarrow> Journey \<Rightarrow> Journey" where
  "end_current_step status now j =
     (case j_current_step j of
        None \<Rightarrow> j
      | Some s \<Rightarrow>
          if st_status s = ''in_progress''
          then j\<lparr>j_current_step := Some (s\<lparr>st_status := status, st_ended_at := Some now\<rparr>)\<rparr>
          else j)"

definition Journey_start_step ::
  "Journey \<Rightarrow> datetime \<Rightarrow> datetime \<Rightarrow> string \<Rightarrow> string option \<Rightarrow> Journey" where
  "Journey_start_step j now_end now_start name category =
     (end_current_step ''completed'' now_end j)
       \<lparr>j_current_step :=
          Some \<lparr> st_name = name, st_category = category, st_started_at = now_start,
                 st_ended_at = None, st_status = ''in_progress'', st_data = [] \<rparr>\<rparr>"

definition Journey_complete :: "Journey \<Rightarrow> datetime \<Rightarrow> Journey" where
  "Journey_complete j now = (end_current_step ''completed'' now j)\<lparr>j_completed := True\<rparr>"

definition Journey_fail :: "Journey \<Rightarrow> datetime \<Rightarrow> Journey" where
  "Journey_fail j now = (end_current_step ''failed'' now j)\<lparr>j_failed := True\<rparr>"

text \<open>
  \<open>get_context\<close> hands over the journey's metadata dict itself, not a copy; the
  context here holds the metadata as it is when the event is built.
\<close>

definition get_context :: "Journey \<Rightarrow> JourneyContext" where
  "get_context j =
     \<lparr> jc_journey_id = j_id j, jc_name = j_name j, jc_started_at = j_started_at j,
       jc_current_step = (case j_current_step j of None \<Rightarrow> None | Some s \<Rightarrow> Some (st_name s)),
       jc_metadata = j_metadata j \<rparr>"

definition get_user :: "Journey \<Rightarrow> User option" where
  "get_user j = j_user j"

definition is_complete :: "Journey \<Rightarrow> bool" where
  "is_complete j = (j_completed j \<or> j_failed j)"

section \<open>config.py\<close>

text \<open>
  \<open>sample_rate\<close> is a Python float; the code only compares it, and the comparison of
  two floats is the comparison of the real numbers they denote.
\<close>

record TelemetryOptions =
  dsn :: string
  opt_environment :: string
  opt_app_version :: string
  sample_rate :: real
  opt_max_breadcrumbs :: int
  debug :: bool
  before_send :: "(TelemetryEvent \<Rightarrow> TelemetryEvent option) option"
  enable_offline_queue :: bool
  max_offline_queue_size :: int
  opt_api_base_url :: "string option"

record ParsedDsn =
  public_key :: string
  host :: string
  protocol :: string
  dsn_api_base_url :: string

text \<open>\<open>resolve_options\<close>, given the result of \<open>parse_dsn\<close> (which relies on \<open>urlparse\<close>).\<close>

definition resolve_options :: "TelemetryOptions \<Rightarrow> ParsedDsn \<Rightarrow> TelemetryOptions" where
  "resolve_options options parsed_dsn =
     (let options = options\<lparr>sample_rate := max 0 (min 1 (sample_rate options))\<rparr>
      in if opt_api_base_url options = None \<or> opt_api_base_url options = Some []
         then options\<lparr>opt_api_base_url := Some (dsn_api_base_url parsed_dsn)\<rparr>
         else options)"

section \<open>client.py\<close>

record TelemetryClient =
  cl_options :: TelemetryOptions
  cl_transport :: Transport
  cl_queue :: "OfflineQueue option"
  cl_breadcrumbs :: BreadcrumbManager
  cl_tags :: "(string \<times> string) list"
  cl_extra :: "(string \<times> json) list"
  cl_user :: "User option"
  cl_current_journey :: "Journey option"

text \<open>
  What a call reads from its surroundings: the id from \<open>generate_event_id()\<close>, the
  clock \<open>datetime.now()\<close>, the interpreter version and \<open>platform.system()\<close>, and the
  draw \<open>random.random()\<close>, a float in \<open>[0, 1)\<close>.
\<close>

record ambient =
  amb_uuid :: string
  amb_now :: datetime
  amb_python_version :: string
  amb_system :: string
  amb_random :: real

text \<open>
  \<open>TelemetryClient(options)\<close>, given the parsed DSN, the content of the queue file and
  whether the storage directory can be written.
\<close>

definition TelemetryClient_init ::
  "TelemetryOptions \<Rightarrow> ParsedDsn \<Rightarrow> json option \<Rightarrow> bool \<Rightarrow> TelemetryClient" where
  "TelemetryClient_init options parsed_dsn file storage_ok =
     (let opts = resolve_options options parsed_dsn
      in \<lparr> cl_options = opts,
           cl_transport =
             \<lparr> t_api_base_url =
                 (case opt_api_base_url opts of
                    None \<Rightarrow> dsn_api_base_url parsed_dsn
                  | Some u \<Rightarrow> if u = [] then dsn_api_base_url parsed_dsn else u),
               t_public_key = public_key parsed_dsn,
               t_debug = debug opts \<rparr>,
           cl_queue =
             (if enable_offline_queue opts
              then Some (OfflineQueue_init (max_offline_queue_size opts) (debug opts)
                           file storage_ok)
              else None),
           cl_breadcrumbs = BreadcrumbManager_init (opt_max_breadcrumbs opts),
           cl_tags = [], cl_extra = [], cl_user = None, cl_current_journey = None \<rparr>)"

definition cl_add_breadcrumb :: "TelemetryClient \<Rightarrow> add_call \<Rightarrow> TelemetryClient" where
  "cl_add_breadcrumb c a = c\<lparr>cl_breadcrumbs := add (cl_breadcrumbs c) a\<rparr>"

definition set_user ::
  "TelemetryClient \<Rightarrow> string \<Rightarrow> string option \<Rightarrow> (string \<times> json) list option
     \<Rightarrow> TelemetryClient" where
  "set_user c uid email data =
     c\<lparr>cl_user := Some \<lparr> usr_id = uid, usr_email = email, usr_name = None,
                          usr_data = data \<rparr>\<rparr>"

definition clear_user :: "TelemetryClient \<Rightarrow> TelemetryClient" where
  "clear_user c = c\<lparr>cl_user := None\<rparr>"

definition set_tag :: "TelemetryClient \<Rightarrow> string \<Rightarrow> string \<Rightarrow> TelemetryClient" where
  "set_tag c k v = c\<lparr>cl_tags := dict_set (cl_tags c) k v\<rparr>"

definition set_extra :: "TelemetryClient \<Rightarrow> string \<Rightarrow> json \<Rightarrow> TelemetryClient" where
  "set_extra c k v = c\<lparr>cl_extra := dict_set (cl_extra c) k v\<rparr>"

text \<open>\<open>start_journey\<close>: a new journey replaces the current one and copies the user.\<close>

definition start_journey :: "TelemetryClient \<Rightarrow> ambient \<Rightarrow> string \<Rightarrow> TelemetryClient" where
  "start_journey c amb name =
     (let j = Journey_init (amb_uuid amb) (amb_now amb) name
      in c\<lparr>cl_current_journey :=
             Some (case cl_user c of
                     None \<Rightarrow> j
                   | Some u \<Rightarrow> Journey_set_user j (usr_id u) (usr_email u) (usr_data u))\<rparr>)"

text \<open>
  The journey is reached through the client here; \<open>journey_set_user\<close> is
  \<open>scope.get_journey().set_user(...)\<close> on the active journey, and \<open>on_complete\<close> is
  what leaving the \<open>JourneyScope\<close> does to the client.
\<close>

definition journey_set_user ::
  "TelemetryClient \<Rightarrow> string \<Rightarrow> string option \<Rightarrow> (string \<times> json) list option
     \<Rightarrow> TelemetryClient" where
  "journey_set_user c uid email data =
     c\<lparr>cl_current_journey :=
         (case cl_current_journey c of
            None \<Rightarrow> None
          | Some j \<Rightarrow> Some (Journey_set_user j uid email data))\<rparr>"

definition on_complete :: "TelemetryClient \<Rightarrow> TelemetryClient" where
  "on_complete c = c\<lparr>cl_current_journey := None\<rparr>"

definition start_step ::
  "TelemetryClient \<Rightarrow> datetime \<Rightarrow> datetime \<Rightarrow> string \<Rightarrow> string option
     \<Rightarrow> error + TelemetryClient" where
  "start_step c now_end now_start name category =
     (case cl_current_journey c of
        None \<Rightarrow> Inl RuntimeError
      | Some j \<Rightarrow>
          Inr (c\<lparr>cl_current_journey :=
                   Some (Journey_start_step j now_end now_start name category)\<rparr>))"

definition get_platform_info :: "ambient \<Rightarrow> PlatformInfo" where
  "get_platform_info amb =
     \<lparr> plat_name = ''python'', plat_version = Some (amb_python_version amb),
       plat_os = Some (amb_system amb) \<rparr>"

definition create_event ::
  "TelemetryClient \<Rightarrow> ambient \<Rightarrow> SeverityLevel \<Rightarrow> string option \<Rightarrow> ExceptionInfo option
     \<Rightarrow> TelemetryEvent" where
  "create_event c amb lvl msg exc =
     (let usr = (case cl_current_journey c of Some j \<Rightarrow> get_user j | None \<Rightarrow> cl_user c)
      in \<lparr> event_id = amb_uuid amb,
           timestamp = amb_now amb,
           level = lvl,
           platform = get_platform_info amb,
           tags = cl_tags c,
           extra = cl_extra c,
           breadcrumbs = bm_get_all (cl_breadcrumbs c),
           message = msg,
           exception = exc,
           user = usr,
           journey = (case cl_current_journey c of
                        Some j \<Rightarrow> Some (get_context j) | None \<Rightarrow> None),
           environment = Some (opt_environment (cl_options c)),
           app_version = Some (opt_app_version (cl_options c)) \<rparr>)"

text \<open>A raised Python exception: its class name, \<open>str(error)\<close> and its traceback.\<close>

record frame_summary =
  fs_name :: string
  fs_filename :: string
  fs_lineno :: "int option"

record py_exception =
  pe_type_name :: string
  pe_str :: string
  pe_traceback :: "frame_summary list"

definition parse_exception :: "py_exception \<Rightarrow> ExceptionInfo" where
  "parse_exception err =
     (let frames = map (\<lambda>f. \<lparr> sf_function = Some (fs_name f),
                               sf_filename = Some (fs_filename f),
                               sf_lineno = fs_lineno f, sf_colno = None,
                               sf_context = None \<rparr>) (pe_traceback err)
      in \<lparr> exc_type = pe_type_name err, exc_message = pe_str err,
           exc_stacktrace = (if frames = [] then None else Some frames) \<rparr>)"

text \<open>
  \<open>_send_event\<close>. The only exception that can leave it is the IndexError of
  \<open>enqueue\<close>. The hook \<open>before_send\<close> is a function from events to optional events.
\<close>

definition dropped :: "TelemetryEvent \<Rightarrow> SendResult" where
  "dropped event =
     \<lparr> success = True, sr_event_id = JStr (event_id event), sr_error = None,
       queued = False \<rparr>"

definition deliver ::
  "TelemetryClient \<Rightarrow> network \<Rightarrow> TelemetryEvent
     \<Rightarrow> error + (SendResult \<times> TelemetryClient \<times> network)" where
  "deliver c n event =
     (let (result, n') = send (cl_transport c) n event
      in case cl_queue c of
           Some q \<Rightarrow>
             if \<not> success result
             then bindE (enqueue q event) (\<lambda>q'.
                    Inr (\<lparr> success = success result, sr_event_id = JStr (event_id event),
                           sr_error = sr_error result, queued = True \<rparr>,
                         c\<lparr>cl_queue := Some q'\<rparr>, n'))
             else Inr (result, c, n')
         | None \<Rightarrow> Inr (result, c, n'))"

definition send_event ::
  "TelemetryClient \<Rightarrow> network \<Rightarrow> real \<Rightarrow> TelemetryEvent
     \<Rightarrow> error + (SendResult \<times> TelemetryClient \<times> network)" where
  "send_event c n random event =
     (if random > sample_rate (cl_options c) then Inr (dropped event, c, n)
      else case before_send (cl_options c) of
             Some hook \<Rightarrow>
               (case hook event of
                  None \<Rightarrow> Inr (dropped event, c, n)
                | Some result \<Rightarrow> deliver c n result)
           | None \<Rightarrow> deliver c n event)"

definition capture_message ::
  "TelemetryClient \<Rightarrow> network \<Rightarrow> ambient \<Rightarrow> string \<Rightarrow> SeverityLevel
     \<Rightarrow> error + (SendResult \<times> TelemetryClient \<times> network)" where
  "capture_message c n amb msg lvl =
     send_event c n (amb_random amb) (create_event c amb lvl (Some msg) None)"

text \<open>The event that \<open>capture_exception\<close> builds before it calls \<open>_send_event\<close>.\<close>

definition exception_event ::
  "TelemetryClient \<Rightarrow> ambient \<Rightarrow> py_exception \<Rightarrow> (string \<times> json) list option
     \<Rightarrow> TelemetryEvent" where
  "exception_event c amb err extra_arg =
     (let exc = parse_exception err;
          event = create_event c amb ERROR (Some (exc_message exc)) (Some exc)
      in case extra_arg of
           None \<Rightarrow> event
         | Some kvs \<Rightarrow>
             event\<lparr>extra := foldl (\<lambda>d (k, v). dict_set d k v) (extra event) kvs\<rparr>)"

definition capture_exception ::
  "TelemetryClient \<Rightarrow> network \<Rightarrow> ambient \<Rightarrow> py_exception \<Rightarrow> (string \<times> json) list option
     \<Rightarrow> error + (SendResult \<times> TelemetryClient \<times> network)" where
  "capture_exception c n amb err extra_arg =
     send_event c n (amb_random amb) (exception_event c amb err extra_arg)"

text \<open>
  \<open>_process_queue\<close>: the loop runs over the snapshot \<open>get_all()\<close> while \<open>remove\<close>
  updates the queue.
\<close>

fun flush_loop ::
  "Transport \<Rightarrow> TelemetryEvent list \<Rightarrow> OfflineQueue \<Rightarrow> network \<Rightarrow> OfflineQueue \<times> network" where
  "flush_loop t [] q n = (q, n)"
| "flush_loop t (event # events) q n =
     (let (result, n') = send t n event
      in flush_loop t events (if success result then remove q (event_id event) else q) n')"

definition process_queue :: "TelemetryClient \<Rightarrow> network \<Rightarrow> TelemetryClient \<times> network" where
  "process_queue c n =
     (case cl_queue c of
        None \<Rightarrow> (c, n)
      | Some q \<Rightarrow>
          if is_empty q then (c, n)
          else (let (online, n1) = is_online (cl_transport c) n
                in if \<not> online then (c, n1)
                   else (let (q', n2) = flush_loop (cl_transport c) (q_get_all q) q n1
                         in (c\<lparr>cl_queue := Some q'\<rparr>, n2))))"

definition flush :: "TelemetryClient \<Rightarrow> network \<Rightarrow> TelemetryClient \<times> network" where
  "flush c n = process_queue c n"

section \<open>Notions used to state the properties\<close>

text \<open>The last \<open>n\<close> elements of a list, in their order (the whole list when it is shorter).\<close>

definition lastn :: "nat \<Rightarrow> 'a list \<Rightarrow> 'a list" where
  "lastn n xs = drop (length xs - n) xs"

text \<open>A call \<open>add(m)\<close> with the default category, level and data, at a fixed clock reading.\<close>

definition add_msg :: "string \<Rightarrow> add_call" where
  "add_msg m =
     \<lparr> ac_now = Datetime ''2024-05-01T10:00:00'', ac_message = m, ac_category = CUSTOM,
       ac_level = INFO, ac_data = None \<rparr>"

text \<open>An event as \<open>capture_message\<close> builds it with no ambient context, with a given id.\<close>

definition plain_event :: "string \<Rightarrow> string \<Rightarrow> TelemetryEvent" where
  "plain_event eid msg =
     \<lparr> event_id = eid, timestamp = Datetime ''2024-05-01T10:00:00'', level = INFO,
       platform = \<lparr> plat_name = ''python'', plat_version = Some ''3.11.4'',
                    plat_os = Some ''Linux'' \<rparr>,
       tags = [], extra = [], breadcrumbs = [], message = Some msg, exception = None,
       user = None, journey = None, environment = Some ''production'',
       app_version = Some ''0.0.0'' \<rparr>"

text \<open>A queue constructed with no file on disk.\<close>

definition fresh_queue :: "int \<Rightarrow> OfflineQueue" where
  "fresh_queue m = OfflineQueue_init m False None True"

text \<open>An event whose user has a display name, as \<open>User(id="u1", name="Bob")\<close>.\<close>

definition named_user_event :: TelemetryEvent where
  "named_user_event =
     (plain_event ''e-1'' ''hi'')
       \<lparr> user := Some \<lparr> usr_id = ''u1'', usr_email = None, usr_name = Some ''Bob'',
                        usr_data = None \<rparr> \<rparr>"

text \<open>A transport, and two servers: one answers 200 with a plain-text body, one with JSON.\<close>

definition demo_transport :: Transport where
  "demo_transport =
     \<lparr> t_api_base_url = ''https://example.com'', t_public_key = ''pk_live_abc'',
       t_debug = False \<rparr>"

definition plain_ok_network :: network where
  "plain_ok_network =
     \<lparr> server = (\<lambda>h r. Response 200 ''OK''
                            (Inl ''Expecting value: line 1 column 1 (char 0)'')),
       history = [] \<rparr>"

definition json_network :: "json \<Rightarrow> network" where
  "json_network body = \<lparr> server = (\<lambda>h r. Response 200 [] (Inr body)), history = [] \<rparr>"

text \<open>What a capture call returned and did, read off its outcome.\<close>

definition result_of ::
  "error + (SendResult \<times> TelemetryClient \<times> network) \<Rightarrow> SendResult option" where
  "result_of res = (case res of Inl e \<Rightarrow> None | Inr (r, c, n) \<Rightarrow> Some r)"

definition requests_after ::
  "error + (SendResult \<times> TelemetryClient \<times> network) \<Rightarrow> request list" where
  "requests_after res = (case res of Inl e \<Rightarrow> [] | Inr (r, c, n) \<Rightarrow> history n)"

text \<open>The events in the client's queue (none when the client has no queue).\<close>

definition queued_events :: "TelemetryClient \<Rightarrow> TelemetryEvent list" where
  "queued_events c = (case cl_queue c of None \<Rightarrow> [] | Some q \<Rightarrow> q_queue q)"

text \<open>The user of the client's active journey.\<close>

definition journey_user :: "TelemetryClient \<Rightarrow> User option" where
  "journey_user c = (case cl_current_journey c of None \<Rightarrow> None | Some j \<Rightarrow> get_user j)"

text \<open>
  The events, among those a flush sends one after the other starting from network
  state \<open>n\<close>, for which \<open>Transport.send\<close> succeeds: the set \<open>S\<close> of the flush.
\<close>

fun sent_ok :: "Transport \<Rightarrow> TelemetryEvent list \<Rightarrow> network \<Rightarrow> TelemetryEvent list" where
  "sent_ok t [] n = []"
| "sent_ok t (event # events) n =
     (let (result, n') = send t n event
      in (if success result then [event] else []) @ sent_ok t events n')"

text \<open>A client, as constructed from options with a given sample rate and hook.\<close>

definition demo_dsn :: ParsedDsn where
  "demo_dsn =
     \<lparr> public_key = ''pk_live_abc'', host = ''example.com'', protocol = ''https'',
       dsn_api_base_url = ''https://example.com'' \<rparr>"

definition demo_options ::
  "real \<Rightarrow> (TelemetryEvent \<Rightarrow> TelemetryEvent option) option \<Rightarrow> TelemetryOptions" where
  "demo_options rate hook =
     \<lparr> dsn = ''https://pk_live_abc@example.com'', opt_environment = ''production'',
       opt_app_version = ''0.0.0'', sample_rate = rate, opt_max_breadcrumbs = 100,
       debug = False, before_send = hook, enable_offline_queue = True,
       max_offline_queue_size = 500, opt_api_base_url = None \<rparr>"

definition demo_client ::
  "real \<Rightarrow> (TelemetryEvent \<Rightarrow> TelemetryEvent option) option \<Rightarrow> TelemetryClient" where
  "demo_client rate hook = TelemetryClient_init (demo_options rate hook) demo_dsn None True"

definition demo_ambient :: "real \<Rightarrow> ambient" where
  "demo_ambient r =
     \<lparr> amb_uuid = ''3f2b8c1e-0000-4000-8000-000000000001'',
       amb_now = Datetime ''2024-05-01T10:00:00'', amb_python_version = ''3.11.4'',
       amb_system = ''Linux'', amb_random = r \<rparr>"

definition demo_error :: py_exception where
  "demo_error = \<lparr> pe_type_name = ''ValueError'', pe_str = ''bad input'', pe_traceback = [] \<rparr>"

text \<open>
  A client that set its user only after starting a journey, one that set it before,
  and one with a user and no journey.
\<close>

definition late_user_client :: TelemetryClient where
  "late_user_client =
     set_user (start_journey (demo_client 1 None) (demo_ambient 0) ''checkout'')
       ''u1'' None None"

definition early_user_client :: TelemetryClient where
  "early_user_client =
     start_journey (set_user (demo_client 1 None) ''u1'' None None) (demo_ambient 0)
       ''checkout''"

definition no_journey_client :: TelemetryClient where
  "no_journey_client = set_user (demo_client 1 None) ''u1'' None None"

text \<open>
  Two queued events with the same \<open>event_id\<close>, and a server that answers the health
  probe and the first event with 200 and everything after with 500.
\<close>

definition dup_client :: TelemetryClient where
  "dup_client =
     (demo_client 1 None)
       \<lparr>cl_queue := Some ((fresh_queue 500)
          \<lparr>q_queue := [plain_event ''dup'' ''first'', plain_event ''dup'' ''second'']\<rparr>)\<rparr>"

definition two_ok_network :: network where
  "two_ok_network =
     \<lparr> server = (\<lambda>h r. if length h \<le> 1 then Response 200 [] (Inr (JObj []))
                        else Response 500 ''Internal Server Error'' (Inl ''not JSON'')),
       history = [] \<rparr>"

text \<open>A server that is down: every request raises.\<close>

definition down_network :: network where
  "down_network = \<lparr> server = (\<lambda>h r. RequestError ''connection refused''), history = [] \<rparr>"

text \<open>A client whose queue holds two events with different ids.\<close>

definition two_client :: TelemetryClient where
  "two_client =
     (demo_client 1 None)
       \<lparr>cl_queue := Some ((fresh_queue 500)
          \<lparr>q_queue := [plain_event ''a'' ''first'', plain_event ''b'' ''second'']\<rparr>)\<rparr>"

section \<open>Breadcrumb buffer\<close>

lemma lastn_snoc: "0 < n \<Longrightarrow> lastn n (lastn n xs @ [x]) = lastn n (xs @ [x])"
proof -
  assume n: "0 < n"
  have "Suc (length xs) - (length xs - n + n) + (length xs - n) = Suc (length xs) - n"
    using n by arith
  then show ?thesis by (simp add: lastn_def)
qed

lemma slice_from_neg: "0 < m \<Longrightarrow> slice_from (- m) xs = lastn (nat m) xs"
  by (auto simp: slice_from_def lastn_def Let_def max_def intro: arg_cong2[where f=drop])

lemma add_lastn:
  "1 \<le> max_breadcrumbs bm \<Longrightarrow>
   bm_breadcrumbs (add bm a) =
     lastn (nat (max_breadcrumbs bm)) (bm_breadcrumbs bm @ [breadcrumb_of a])"
  apply (simp add: add_def Let_def slice_from_neg)
  apply (auto simp: lastn_def)
  done

lemma add_max: "max_breadcrumbs (add bm a) = max_breadcrumbs bm"
  by (simp add: add_def Let_def)

lemma add_calls_lastn:
  "1 \<le> max_breadcrumbs bm \<Longrightarrow> cs \<noteq> [] \<Longrightarrow>
   bm_breadcrumbs (add_calls bm cs) =
     lastn (nat (max_breadcrumbs bm)) (bm_breadcrumbs bm @ map breadcrumb_of cs)
   \<and> max_breadcrumbs (add_calls bm cs) = max_breadcrumbs bm"
proof (induction cs rule: rev_induct)
  case Nil
  then show ?case by simp
next
  case (snoc c cs)
  show ?case
  proof (cases "cs = []")
    case True
    then show ?thesis using snoc.prems by (simp add: add_calls_def add_lastn add_max)
  next
    case False
    with snoc have IH: "bm_breadcrumbs (add_calls bm cs) =
        lastn (nat (max_breadcrumbs bm)) (bm_breadcrumbs bm @ map breadcrumb_of cs)"
      and M: "max_breadcrumbs (add_calls bm cs) = max_breadcrumbs bm" by auto
    have "add_calls bm (cs @ [c]) = add (add_calls bm cs) c" by (simp add: add_calls_def)
    then show ?thesis using IH M snoc.prems(1)
      by (simp add: add_lastn add_max lastn_snoc)
  qed
qed

text \<open>
  Claim C6. On a manager with \<open>max_breadcrumbs \<ge> 1\<close>, whatever it already holds, after
  a sequence of \<open>add\<close> calls longer than \<open>max_breadcrumbs\<close> the snapshot \<open>get_all()\<close>
  has exactly \<open>max_breadcrumbs\<close> entries, and they are the breadcrumbs of the most recent
  \<open>max_breadcrumbs\<close> calls in the order of the calls.
\<close>

theorem breadcrumbs_keep_most_recent:
  assumes "1 \<le> max_breadcrumbs bm" and "int (length cs) > max_breadcrumbs bm"
  shows "length (bm_get_all (add_calls bm cs)) = nat (max_breadcrumbs bm) \<and>
         bm_get_all (add_calls bm cs) =
           drop (length cs - nat (max_breadcrumbs bm)) (map breadcrumb_of cs)"
proof -
  from assms have ne: "cs \<noteq> []" by auto
  from add_calls_lastn[OF assms(1) ne] have
    e: "bm_get_all (add_calls bm cs) =
          lastn (nat (max_breadcrumbs bm)) (bm_breadcrumbs bm @ map breadcrumb_of cs)"
    by (simp add: bm_get_all_def)
  have l: "nat (max_breadcrumbs bm) \<le> length cs" using assms(2) by linarith
  show ?thesis unfolding e using l by (simp add: lastn_def)
qed

theorem breadcrumbs_keep_most_recent_witness:
  "1 \<le> max_breadcrumbs (BreadcrumbManager_init 2) \<and>
   int (length [add_msg ''a'', add_msg ''b'', add_msg ''c''])
     > max_breadcrumbs (BreadcrumbManager_init 2) \<and>
   bm_get_all (add_calls (BreadcrumbManager_init 2) [add_msg ''a'', add_msg ''b'', add_msg ''c''])
     = [breadcrumb_of (add_msg ''b''), breadcrumb_of (add_msg ''c'')]"
  using breadcrumbs_keep_most_recent
    [of "BreadcrumbManager_init 2" "[add_msg ''a'', add_msg ''b'', add_msg ''c'']"]
  by (simp add: BreadcrumbManager_init_def)

section \<open>Offline queue\<close>

lemma fresh_queue_simps [simp]:
  "q_queue (fresh_queue m) = []" "q_max_size (fresh_queue m) = m"
  by (simp_all add: fresh_queue_def OfflineQueue_init_def q_load_def)

lemma lastn_rev: "lastn n xs = rev (take n (rev xs))"
  by (simp add: lastn_def take_rev)

lemma lastn_append: "lastn n (lastn n xs @ ys) = lastn n (xs @ ys)"
  by (simp add: lastn_rev min_def)

lemma lastn_full: "Suc (length xs) = n \<Longrightarrow> lastn n (x # xs @ [e]) = xs @ [e]"
  by (auto simp add: lastn_def)

lemma lastn_room: "length xs \<le> n \<Longrightarrow> lastn n xs = xs"
  by (simp add: lastn_def)

lemma length_lastn: "length (lastn n xs) \<le> n"
  by (simp add: lastn_def)

lemma q_save_queue: "q_queue (q_save q) = q_queue q" "q_max_size (q_save q) = q_max_size q"
  by (simp_all add: q_save_def)

lemma enqueue_full:
  "q_max_size q \<le> int (length (q_queue q)) \<Longrightarrow> q_queue q = x # xs \<Longrightarrow>
   enqueue q e = Inr (q_save (q\<lparr>q_queue := xs @ [e]\<rparr>))"
  by (simp add: enqueue_def bindE_def)

lemma enqueue_room:
  "\<not> q_max_size q \<le> int (length (q_queue q)) \<Longrightarrow>
   enqueue q e = Inr (q_save (q\<lparr>q_queue := q_queue q @ [e]\<rparr>))"
  by (simp add: enqueue_def bindE_def)

text \<open>One \<open>enqueue\<close> on a queue within its bound keeps the last \<open>max_size\<close> entries.\<close>

lemma enqueue_ok:
  assumes "1 \<le> q_max_size q" "length (q_queue q) \<le> nat (q_max_size q)"
  shows "\<exists>q'. enqueue q e = Inr q'
           \<and> q_queue q' = lastn (nat (q_max_size q)) (q_queue q @ [e])
           \<and> q_max_size q' = q_max_size q"
proof (cases "q_max_size q \<le> int (length (q_queue q))")
  case True
  with assms have len: "length (q_queue q) = nat (q_max_size q)" by linarith
  with assms(1) obtain x xs where xs: "q_queue q = x # xs" by (cases "q_queue q") auto
  from len xs have "Suc (length xs) = nat (q_max_size q)" by simp
  then have "lastn (nat (q_max_size q)) (x # xs @ [e]) = xs @ [e]" by (rule lastn_full)
  then show ?thesis unfolding enqueue_full[OF True xs] xs by (simp add: q_save_queue)
next
  case False
  then have "length (q_queue q @ [e]) \<le> nat (q_max_size q)" by simp
  then have "lastn (nat (q_max_size q)) (q_queue q @ [e]) = q_queue q @ [e]"
    by (rule lastn_room)
  then show ?thesis unfolding enqueue_room[OF False] by (simp add: q_save_queue)
qed

lemma enqueue_all_ok:
  "1 \<le> q_max_size q \<Longrightarrow> length (q_queue q) \<le> nat (q_max_size q) \<Longrightarrow>
   \<exists>q'. enqueue_all q es = Inr q'
      \<and> q_queue q' = lastn (nat (q_max_size q)) (q_queue q @ es)
      \<and> q_max_size q' = q_max_size q"
proof (induction es arbitrary: q)
  case Nil
  then show ?case by (simp add: lastn_room)
next
  case (Cons e es)
  from enqueue_ok[OF Cons.prems] obtain q1 where
    q1: "enqueue q e = Inr q1" "q_queue q1 = lastn (nat (q_max_size q)) (q_queue q @ [e])"
        "q_max_size q1 = q_max_size q" by blast
  have "1 \<le> q_max_size q1" "length (q_queue q1) \<le> nat (q_max_size q1)"
    using q1 Cons.prems by (simp_all add: length_lastn)
  from Cons.IH[OF this] obtain q' where
    q': "enqueue_all q1 es = Inr q'"
        "q_queue q' = lastn (nat (q_max_size q1)) (q_queue q1 @ es)"
        "q_max_size q' = q_max_size q1" by blast
  have "lastn (nat (q_max_size q)) (lastn (nat (q_max_size q)) (q_queue q @ [e]) @ es)
        = lastn (nat (q_max_size q)) (q_queue q @ e # es)"
    using lastn_append[of "nat (q_max_size q)" "q_queue q @ [e]" es] by simp
  then show ?case using q1 q' by (simp add: bindE_def)
qed

text \<open>
  Claim C5. On an empty queue with \<open>max_size \<ge> 1\<close>, enqueueing \<open>max_size + k\<close> events
  with \<open>k \<ge> 1\<close> raises nothing and leaves exactly \<open>max_size\<close> entries: the events
  enqueued last, in insertion order (the first \<open>k\<close> are gone).
\<close>

theorem enqueue_beyond_capacity:
  assumes "1 \<le> q_max_size q" and "q_queue q = []"
    and "length es = nat (q_max_size q) + k" and "1 \<le> k"
  shows "\<exists>q'. enqueue_all q es = Inr q' \<and> length (q_queue q') = nat (q_max_size q)
           \<and> q_queue q' = drop k es"
proof -
  from enqueue_all_ok[of q es] assms obtain q' where
    q': "enqueue_all q es = Inr q'" "q_queue q' = lastn (nat (q_max_size q)) es" by auto
  have "lastn (nat (q_max_size q)) es = drop k es" using assms(3) by (simp add: lastn_def)
  then show ?thesis using q' assms(3) by simp
qed

theorem enqueue_beyond_capacity_witness:
  "1 \<le> q_max_size (fresh_queue 2) \<and> q_queue (fresh_queue 2) = [] \<and>
   length [plain_event ''a'' ''1'', plain_event ''b'' ''2'', plain_event ''c'' ''3'']
     = nat (q_max_size (fresh_queue 2)) + 1 \<and>
   (\<exists>q'. enqueue_all (fresh_queue 2)
            [plain_event ''a'' ''1'', plain_event ''b'' ''2'', plain_event ''c'' ''3''] = Inr q'
      \<and> q_queue q' = [plain_event ''b'' ''2'', plain_event ''c'' ''3''])"
  using enqueue_beyond_capacity [of "fresh_queue 2"
     "[plain_event ''a'' ''1'', plain_event ''b'' ''2'', plain_event ''c'' ''3'']" 1]
  by auto

text \<open>
  Claim C10. \<open>enqueue\<close> returns normally on every queue whose \<open>max_size\<close> is at least 1;
  on an empty queue constructed with \<open>max_size \<le> 0\<close> the first \<open>enqueue\<close> raises
  IndexError (\<open>pop(0)\<close> on the empty list) and appends nothing.
\<close>

theorem enqueue_total_iff_positive_max_size:
  "(1 \<le> q_max_size q \<longrightarrow> (\<exists>q'. enqueue q e = Inr q')) \<and>
   (q_max_size q \<le> 0 \<and> q_queue q = [] \<longrightarrow> enqueue q e = Inl IndexError)"
proof (intro conjI impI)
  assume m: "1 \<le> q_max_size q"
  show "\<exists>q'. enqueue q e = Inr q'"
  proof (cases "q_queue q")
    case Nil
    then show ?thesis using m by (simp add: enqueue_def bindE_def)
  next
    case (Cons x xs)
    then show ?thesis by (simp add: enqueue_def bindE_def)
  qed
next
  assume "q_max_size q \<le> 0 \<and> q_queue q = []"
  then show "enqueue q e = Inl IndexError" by (simp add: enqueue_def bindE_def)
qed

theorem enqueue_total_iff_positive_max_size_witness:
  "1 \<le> q_max_size (fresh_queue 1) \<and>
   (\<exists>q'. enqueue (fresh_queue 1) (plain_event ''a'' ''1'') = Inr q') \<and>
   q_max_size (fresh_queue 0) \<le> 0 \<and> q_queue (fresh_queue 0) = [] \<and>
   enqueue (fresh_queue 0) (plain_event ''a'' ''1'') = Inl IndexError"
  using enqueue_total_iff_positive_max_size [of "fresh_queue 1" "plain_event ''a'' ''1''"]
    enqueue_total_iff_positive_max_size [of "fresh_queue 0" "plain_event ''a'' ''1''"]
  by simp

section \<open>Queue serialization\<close>

lemmas ser_defs = q_serialize_event_def q_serialize_exception_def q_serialize_frame_def
  q_serialize_user_def q_serialize_breadcrumb_def q_serialize_journey_def
  q_serialize_platform_def opt_str_def opt_int_def opt_dict_def tags_dict_def

lemmas deser_defs = deserialize_event_def deserialize_exception_def deserialize_frame_def
  deserialize_user_def deserialize_breadcrumb_def deserialize_journey_def
  deserialize_platform_def bindE_def dict_get_def SeverityLevel_of_def
  BreadcrumbCategory_of_def

text \<open>
  Claim C1 says that \<open>_deserialize_event\<close> applied to \<open>_serialize_event\<close> gives back
  an event equal to the original in all fields. On an event whose user has a name the
  code does not: \<open>_serialize_event\<close> writes only \<open>id\<close>, \<open>email\<close> and \<open>data\<close> of the
  user, and the event read back has the user's name \<open>None\<close>.
\<close>

theorem queue_round_trip_loses_user_name:
  "deserialize_event (q_serialize_event named_user_event) =
     Inr (named_user_event
            \<lparr> user := Some \<lparr> usr_id = ''u1'', usr_email = None, usr_name = None,
                             usr_data = None \<rparr> \<rparr>)
   \<and> deserialize_event (q_serialize_event named_user_event) \<noteq> Inr named_user_event"
  by (simp add: named_user_event_def plain_event_def ser_defs deser_defs)

section \<open>Transport\<close>

text \<open>
  Claim C8: every response with a status below 400 gives \<open>success=true\<close>, with the
  event's own id when the body carries no \<open>eventId\<close>. On a 200 response whose body
  is the plain text \<open>OK\<close> the code does not: the status test passes, then
  \<open>response.json()\<close> raises inside the \<open>try\<close> block, the handler written for send
  failures catches it, and \<open>send\<close> returns \<open>success=false\<close> with the parser's
  message as the error.
\<close>

theorem send_non_json_body_fails:
  "server plain_ok_network (history plain_ok_network)
       (events_request demo_transport (plain_event ''e-1'' ''hi''))
     = Response 200 ''OK'' (Inl ''Expecting value: line 1 column 1 (char 0)'') \<and>
   \<not> success (fst (send demo_transport plain_ok_network (plain_event ''e-1'' ''hi''))) \<and>
   fst (send demo_transport plain_ok_network (plain_event ''e-1'' ''hi''))
     = failure ''Expecting value: line 1 column 1 (char 0)''"
  by (simp add: send_def exchange_def plain_ok_network_def failure_def)

text \<open>
  On a body that parses as a JSON object \<open>send\<close> does what the claim says: for a
  status below 400 it returns \<open>success=true\<close> with \<open>event_id\<close> equal to the object's
  \<open>eventId\<close> when that key is present and to the event's own \<open>event_id\<close> otherwise
  (no error, not queued).
\<close>

theorem send_success_event_id:
  assumes "server n (history n) (events_request t event)
             = Response status_code text (Inr (JObj kvs))"
    and "status_code < 400"
  shows "fst (send t n event) =
           \<lparr> success = True,
             sr_event_id = (case map_of kvs ''eventId'' of
                              None \<Rightarrow> JStr (event_id event) | Some v \<Rightarrow> v),
             sr_error = None, queued = False \<rparr>"
  using assms by (simp add: send_def exchange_def Let_def)

theorem send_success_event_id_witness:
  "server (json_network (JObj [])) (history (json_network (JObj [])))
       (events_request demo_transport (plain_event ''e-1'' ''hi''))
     = Response 200 [] (Inr (JObj [])) \<and> (200::int) < 400 \<and>
   fst (send demo_transport (json_network (JObj [])) (plain_event ''e-1'' ''hi'')) =
     \<lparr> success = True, sr_event_id = JStr ''e-1'', sr_error = None, queued = False \<rparr>"
  using send_success_event_id
    [of "json_network (JObj [])" demo_transport "plain_event ''e-1'' ''hi''" 200 "[]" "[]"]
  by (simp add: json_network_def plain_event_def)

section \<open>Capture pipeline\<close>

lemma create_event_id [simp]: "event_id (create_event c amb lvl msg exc) = amb_uuid amb"
  by (simp add: create_event_def Let_def)

lemma exception_event_id [simp]: "event_id (exception_event c amb err ex) = amb_uuid amb"
  by (simp add: exception_event_def Let_def split: option.split)

lemma demo_client_rate [simp]:
  "0 \<le> r \<Longrightarrow> r \<le> 1 \<Longrightarrow> sample_rate (cl_options (demo_client r h)) = r"
  by (simp add: demo_client_def TelemetryClient_init_def resolve_options_def
      demo_options_def Let_def)

lemma demo_client_hook [simp]: "before_send (cl_options (demo_client r h)) = h"
  by (simp add: demo_client_def TelemetryClient_init_def resolve_options_def
      demo_options_def Let_def)

lemma demo_client_queue [simp]: "cl_queue (demo_client r h) = Some (fresh_queue 500)"
  by (simp add: demo_client_def TelemetryClient_init_def resolve_options_def
      demo_options_def Let_def fresh_queue_def)

text \<open>Every call of \<open>Transport.send\<close> adds exactly its POST request to the history.\<close>

lemma send_history: "history (snd (send t n e)) = history n @ [events_request t e]"
  by (simp add: send_def exchange_def Let_def split: http_outcome.split sum.split)

text \<open>
  When the server answers 200 with a body that is not JSON, \<open>send\<close> fails (see the
  transport section); the capture call reports the delivered event as failed and
  queues it, so a later flush posts it again.
\<close>

lemma accepted_event_reported_failed_and_queued:
  "result_of (capture_message (demo_client 1 None) plain_ok_network (demo_ambient 0)
                ''hi'' INFO)
     = Some \<lparr> success = False, sr_event_id = JStr ''3f2b8c1e-0000-4000-8000-000000000001'',
              sr_error = Some ''Expecting value: line 1 column 1 (char 0)'',
              queued = True \<rparr>"
  by (simp add: capture_message_def send_event_def deliver_def send_def exchange_def
      plain_ok_network_def failure_def result_of_def enqueue_def bindE_def
      demo_ambient_def)

text \<open>
  Claim C3 as stated covers every draw in \<open>[0, 1)\<close>. At the draw \<open>0.0\<close> the test
  \<open>random.random() > sample_rate\<close> is false for \<open>sample_rate = 0.0\<close>, the event is not
  dropped, and \<open>Transport.send\<close> posts it.
\<close>

theorem zero_sample_rate_zero_draw_sends:
  "sample_rate (cl_options (demo_client 0 None)) = 0 \<and> amb_random (demo_ambient 0) = 0 \<and>
   requests_after (capture_message (demo_client 0 None) (json_network (JObj []))
                     (demo_ambient 0) ''hi'' INFO)
     = [events_request (cl_transport (demo_client 0 None))
          (create_event (demo_client 0 None) (demo_ambient 0) INFO (Some ''hi'') None)]"
  by (simp add: capture_message_def send_event_def deliver_def send_def exchange_def
      json_network_def requests_after_def demo_ambient_def
      demo_client_def TelemetryClient_init_def resolve_options_def demo_options_def Let_def)

text \<open>
  Claim C3, amended. With \<open>sample_rate = 0.0\<close> and a draw strictly greater than
  \<open>0.0\<close>, \<open>capture_message\<close> and \<open>capture_exception\<close> return \<open>success=true\<close>,
  \<open>queued=false\<close> with the event's id, and leave the client and the network as they
  were: no request is made.
\<close>

theorem zero_sample_rate_drops:
  assumes "sample_rate (cl_options c) = 0" and "0 < amb_random amb"
  shows "capture_message c n amb msg lvl =
           Inr (\<lparr> success = True, sr_event_id = JStr (amb_uuid amb), sr_error = None,
                  queued = False \<rparr>, c, n)
       \<and> capture_exception c n amb err ex =
           Inr (\<lparr> success = True, sr_event_id = JStr (amb_uuid amb), sr_error = None,
                  queued = False \<rparr>, c, n)"
  using assms
  by (simp add: capture_message_def capture_exception_def send_event_def dropped_def)

theorem zero_sample_rate_drops_witness:
  "sample_rate (cl_options (demo_client 0 None)) = 0 \<and>
   0 < amb_random (demo_ambient (1/2)) \<and>
   capture_message (demo_client 0 None) down_network (demo_ambient (1/2)) ''hi'' WARNING =
     Inr (\<lparr> success = True, sr_event_id = JStr ''3f2b8c1e-0000-4000-8000-000000000001'',
            sr_error = None, queued = False \<rparr>,
          demo_client 0 None, down_network)"
  using zero_sample_rate_drops
    [of "demo_client 0 None" "demo_ambient (1/2)" down_network "''hi''" WARNING
        demo_error None]
  by (simp add: demo_ambient_def)

text \<open>
  Claim C7. When the \<open>before_send\<close> hook returns \<open>None\<close> for the event a capture call
  builds, the call returns \<open>success=true\<close>, \<open>queued=false\<close>, whatever the sampling
  draw is, and the client and the network are unchanged: \<open>Transport.send\<close> is not
  invoked and nothing is queued.
\<close>

theorem before_send_drop:
  assumes "before_send (cl_options c) = Some hook"
  shows "(hook (create_event c amb lvl (Some msg) None) = None \<longrightarrow>
            capture_message c n amb msg lvl =
              Inr (\<lparr> success = True, sr_event_id = JStr (amb_uuid amb), sr_error = None,
                     queued = False \<rparr>, c, n))
       \<and> (hook (exception_event c amb err ex) = None \<longrightarrow>
            capture_exception c n amb err ex =
              Inr (\<lparr> success = True, sr_event_id = JStr (amb_uuid amb), sr_error = None,
                     queued = False \<rparr>, c, n))"
  using assms
  by (simp add: capture_message_def capture_exception_def send_event_def dropped_def)

theorem before_send_drop_witness:
  "before_send (cl_options (demo_client 1 (Some (\<lambda>e. None)))) = Some (\<lambda>e. None) \<and>
   (\<lambda>e::TelemetryEvent. None :: TelemetryEvent option)
     (create_event (demo_client 1 (Some (\<lambda>e. None))) (demo_ambient 0) INFO
        (Some ''hi'') None) = None \<and>
   (\<lambda>e::TelemetryEvent. None :: TelemetryEvent option)
     (exception_event (demo_client 1 (Some (\<lambda>e. None))) (demo_ambient 0) demo_error None)
     = None \<and>
   capture_message (demo_client 1 (Some (\<lambda>e. None))) down_network (demo_ambient 0)
       ''hi'' INFO =
     Inr (\<lparr> success = True, sr_event_id = JStr ''3f2b8c1e-0000-4000-8000-000000000001'',
            sr_error = None, queued = False \<rparr>,
          demo_client 1 (Some (\<lambda>e. None)), down_network) \<and>
   capture_exception (demo_client 1 (Some (\<lambda>e. None))) down_network (demo_ambient 0)
       demo_error None =
     Inr (\<lparr> success = True, sr_event_id = JStr ''3f2b8c1e-0000-4000-8000-000000000001'',
            sr_error = None, queued = False \<rparr>,
          demo_client 1 (Some (\<lambda>e. None)), down_network)"
  using before_send_drop
    [of "demo_client 1 (Some (\<lambda>e. None))" "\<lambda>e. None" "demo_ambient 0" INFO "''hi''"
        down_network demo_error None]
  by (simp add: demo_ambient_def)

section \<open>Flush\<close>

text \<open>
  Claim C9. For a client with an offline queue, when \<open>Transport.is_online()\<close> returns
  false, \<open>flush()\<close> leaves the client, and so the queue in length and contents, as it
  was, and adds no request to the events endpoint to the history: \<open>Transport.send\<close> is
  not called.
\<close>

theorem flush_offline_unchanged:
  assumes "cl_queue c = Some q" and "\<not> fst (is_online (cl_transport c) n)"
  shows "fst (flush c n) = c \<and>
         filter is_post (history (snd (flush c n))) = filter is_post (history n)"
  using assms
  by (auto simp add: flush_def process_queue_def is_online_def exchange_def
      health_request_def Let_def split: prod.splits http_outcome.splits if_splits)

theorem flush_offline_unchanged_witness:
  "cl_queue dup_client =
     Some ((fresh_queue 500)
       \<lparr>q_queue := [plain_event ''dup'' ''first'', plain_event ''dup'' ''second'']\<rparr>) \<and>
   \<not> fst (is_online (cl_transport dup_client) down_network) \<and>
   fst (flush dup_client down_network) = dup_client \<and>
   filter is_post (history (snd (flush dup_client down_network))) = []"
  using flush_offline_unchanged
    [of dup_client
        "(fresh_queue 500)
           \<lparr>q_queue := [plain_event ''dup'' ''first'', plain_event ''dup'' ''second'']\<rparr>"
        down_network]
  by (simp add: dup_client_def is_online_def exchange_def down_network_def)

lemma remove_queue: "q_queue (remove q i) = filter (\<lambda>e. event_id e \<noteq> i) (q_queue q)"
  by (simp add: remove_def q_save_def)

lemma sent_ok_subset: "set (sent_ok t es n) \<subseteq> set es"
  by (induction es arbitrary: n) (auto simp: Let_def split: prod.splits)

text \<open>The loop removes the entries that share an id with an event sent successfully.\<close>

lemma flush_loop_queue:
  "q_queue (fst (flush_loop t es q n)) =
     filter (\<lambda>e. event_id e \<notin> event_id ` set (sent_ok t es n)) (q_queue q)"
proof (induction es arbitrary: q n)
  case Nil
  then show ?case by simp
next
  case (Cons e es)
  obtain r n' where s: "send t n e = (r, n')" by (cases "send t n e")
  show ?case
  proof (cases "success r")
    case True
    have "q_queue (fst (flush_loop t es (remove q (event_id e)) n')) =
            filter (\<lambda>x. event_id x \<notin> event_id ` set (sent_ok t es n'))
                   (filter (\<lambda>x. event_id x \<noteq> event_id e) (q_queue q))"
      using Cons.IH[of "remove q (event_id e)" n'] by (simp add: remove_queue)
    then show ?thesis using s True by (simp add: conj_commute)
  next
    case False
    then show ?thesis using s Cons.IH[of q n'] by simp
  qed
qed

lemmas net_defs = is_online_def send_def exchange_def health_request_def events_request_def
  two_ok_network_def failure_def

text \<open>
  Claim C2 as stated holds for every non-empty queue. With two queued events that
  share an \<open>event_id\<close>, a send that succeeds for the first and fails for the second
  removes both, since \<open>remove\<close> drops every entry with the id: the second event is
  not in \<open>S\<close> and is removed all the same.
\<close>

theorem flush_removes_failed_duplicate:
  "queued_events dup_client =
     [plain_event ''dup'' ''first'', plain_event ''dup'' ''second''] \<and>
   fst (is_online (cl_transport dup_client) two_ok_network) \<and>
   sent_ok (cl_transport dup_client) (queued_events dup_client)
       (snd (is_online (cl_transport dup_client) two_ok_network))
     = [plain_event ''dup'' ''first''] \<and>
   plain_event ''dup'' ''second'' \<noteq> plain_event ''dup'' ''first'' \<and>
   queued_events (fst (flush dup_client two_ok_network)) = []"
  by (simp add: dup_client_def queued_events_def net_defs flush_def process_queue_def
      is_empty_def q_get_all_def remove_def q_save_def fresh_queue_def
      OfflineQueue_init_def q_load_def plain_event_def Let_def)

text \<open>
  Claim C2, amended. For a client with a non-empty queue whose events have pairwise
  distinct \<open>event_id\<close>s, when \<open>is_online()\<close> returns true, \<open>flush()\<close> leaves in the
  queue exactly the events outside \<open>S\<close>, the events whose send succeeded during the
  flush, in their original order.
\<close>

theorem flush_removes_exactly_sent:
  assumes "cl_queue c = Some q" and "q_queue q \<noteq> []"
    and "fst (is_online (cl_transport c) n)"
    and "distinct (map event_id (q_queue q))"
  shows "queued_events (fst (flush c n)) =
           filter (\<lambda>e. e \<notin> set (sent_ok (cl_transport c) (q_queue q)
                                   (snd (is_online (cl_transport c) n))))
                  (q_queue q)"
proof -
  let ?t = "cl_transport c" and ?n1 = "snd (is_online (cl_transport c) n)"
  let ?S = "set (sent_ok ?t (q_queue q) ?n1)"
  have fl: "queued_events (fst (flush c n)) = q_queue (fst (flush_loop ?t (q_queue q) q ?n1))"
  proof -
    obtain n1 where io: "is_online ?t n = (True, n1)"
      using assms(3) by (cases "is_online ?t n") auto
    obtain q' n2 where lp: "flush_loop ?t (q_queue q) q n1 = (q', n2)"
      by (cases "flush_loop ?t (q_queue q) q n1")
    show ?thesis using assms(1,2) io lp
      by (simp add: flush_def process_queue_def is_empty_def q_get_all_def
          queued_events_def)
  qed
  have inj: "inj_on event_id (set (q_queue q))"
    using assms(4) by (simp add: distinct_map)
  have sub: "?S \<subseteq> set (q_queue q)" by (rule sent_ok_subset)
  have "\<And>x. x \<in> set (q_queue q) \<Longrightarrow> (event_id x \<notin> event_id ` ?S) = (x \<notin> ?S)"
    using inj sub by (auto dest: inj_onD)
  then have "filter (\<lambda>e. event_id e \<notin> event_id ` ?S) (q_queue q)
             = filter (\<lambda>e. e \<notin> ?S) (q_queue q)"
    by (intro filter_cong) auto
  then show ?thesis using fl by (simp add: flush_loop_queue)
qed

theorem flush_removes_exactly_sent_witness:
  "cl_queue two_client =
     Some ((fresh_queue 500)
       \<lparr>q_queue := [plain_event ''a'' ''first'', plain_event ''b'' ''second'']\<rparr>) \<and>
   fst (is_online (cl_transport two_client) two_ok_network) \<and>
   distinct (map event_id [plain_event ''a'' ''first'', plain_event ''b'' ''second'']) \<and>
   sent_ok (cl_transport two_client)
       [plain_event ''a'' ''first'', plain_event ''b'' ''second'']
       (snd (is_online (cl_transport two_client) two_ok_network))
     = [plain_event ''a'' ''first''] \<and>
   queued_events (fst (flush two_client two_ok_network)) = [plain_event ''b'' ''second'']"
  using flush_removes_exactly_sent
    [of two_client
        "(fresh_queue 500)
           \<lparr>q_queue := [plain_event ''a'' ''first'', plain_event ''b'' ''second'']\<rparr>"
        two_ok_network]
  by (simp add: two_client_def net_defs plain_event_def Let_def)

section \<open>Event construction\<close>

text \<open>
  Claim C4 says that with an active journey that has no user the event carries the
  client's current user. A client that calls \<open>set_user\<close> after \<open>start_journey\<close> has
  a user, its journey has none, and the event it builds has no user.
\<close>

theorem journey_without_user_hides_client_user:
  "cl_current_journey late_user_client \<noteq> None \<and>
   journey_user late_user_client = None \<and>
   cl_user late_user_client =
     Some \<lparr> usr_id = ''u1'', usr_email = None, usr_name = None, usr_data = None \<rparr> \<and>
   user (create_event late_user_client (demo_ambient 0) INFO (Some ''hi'') None) = None"
  by (simp add: late_user_client_def demo_client_def TelemetryClient_init_def
      resolve_options_def demo_options_def Let_def start_journey_def set_user_def
      Journey_init_def get_user_def journey_user_def demo_ambient_def create_event_def)

text \<open>
  Claim C4, amended. While a journey is active the event carries the journey's user:
  that user when the journey has one, and no user when the journey has none. With no
  active journey the event carries the client's current user.
\<close>

theorem event_user_precedence:
  "(cl_current_journey c = Some j \<and> get_user j = Some u \<longrightarrow>
      user (create_event c amb lvl msg exc) = Some u)
   \<and> (cl_current_journey c = Some j \<and> get_user j = None \<longrightarrow>
      user (create_event c amb lvl msg exc) = None)
   \<and> (cl_current_journey c = None \<longrightarrow>
      user (create_event c amb lvl msg exc) = cl_user c)"
  by (simp add: create_event_def Let_def)

theorem event_user_precedence_witness:
  "cl_current_journey early_user_client =
     Some (Journey_set_user
             (Journey_init (amb_uuid (demo_ambient 0)) (amb_now (demo_ambient 0))
                ''checkout'') ''u1'' None None) \<and>
   get_user (Journey_set_user
               (Journey_init (amb_uuid (demo_ambient 0)) (amb_now (demo_ambient 0))
                  ''checkout'') ''u1'' None None)
     = Some \<lparr> usr_id = ''u1'', usr_email = None, usr_name = None, usr_data = None \<rparr> \<and>
   user (create_event early_user_client (demo_ambient 0) INFO (Some ''hi'') None)
     = Some \<lparr> usr_id = ''u1'', usr_email = None, usr_name = None, usr_data = None \<rparr> \<and>
   cl_current_journey late_user_client =
     Some (Journey_init (amb_uuid (demo_ambient 0)) (amb_now (demo_ambient 0))
             ''checkout'') \<and>
   get_user (Journey_init (amb_uuid (demo_ambient 0)) (amb_now (demo_ambient 0))
               ''checkout'') = None \<and>
   user (create_event late_user_client (demo_ambient 0) INFO (Some ''hi'') None) = None \<and>
   cl_current_journey no_journey_client = None \<and>
   user (create_event no_journey_client (demo_ambient 0) INFO (Some ''hi'') None)
     = cl_user no_journey_client"
  using
    event_user_precedence
      [of early_user_client
          "Journey_set_user
             (Journey_init (amb_uuid (demo_ambient 0)) (amb_now (demo_ambient 0))
                ''checkout'') ''u1'' None None"
          "\<lparr> usr_id = ''u1'', usr_email = None, usr_name = None, usr_data = None \<rparr>"
          "demo_ambient 0" INFO "Some ''hi''" None]
    event_user_precedence
      [of late_user_client
          "Journey_init (amb_uuid (demo_ambient 0)) (amb_now (demo_ambient 0)) ''checkout''"
          "\<lparr> usr_id = ''u1'', usr_email = None, usr_name = None, usr_data = None \<rparr>"
          "demo_ambient 0" INFO "Some ''hi''" None]
    event_user_precedence
      [of no_journey_client
          "Journey_init (amb_uuid (demo_ambient 0)) (amb_now (demo_ambient 0)) ''checkout''"
          "\<lparr> usr_id = ''u1'', usr_email = None, usr_name = None, usr_data = None \<rparr>"
          "demo_ambient 0" INFO "Some ''hi''" None]
  by (simp add: early_user_client_def late_user_client_def no_journey_client_def
      demo_client_def TelemetryClient_init_def resolve_options_def demo_options_def
      Let_def start_journey_def set_user_def Journey_init_def Journey_set_user_def
      get_user_def)

end
